theory Spec2Isabelle
  imports Complex_Main "HOL-Library.Sublist"
begin

section \<open>Python strings\<close>

text \<open>
  Text is a list of characters, read as ASCII code points: beyond ASCII the program's
  \<open>upper\<close>, \<open>strip\<close>, \<open>split\<close> and \<open>splitlines\<close> know more letters, blanks
  (U+0085, U+00A0) and line boundaries (U+0085, U+2028, U+2029) than the functions here.
  Python floats are modelled as real numbers: the values are the exact ones, without the
  rounding of doubles, overflow, infinities or NaN.
\<close>

definition upper_char :: "char \<Rightarrow> char" where
  "upper_char c =
     (case map_of (zip ''abcdefghijklmnopqrstuvwxyz'' ''ABCDEFGHIJKLMNOPQRSTUVWXYZ'') c of
        None \<Rightarrow> c
      | Some u \<Rightarrow> u)"

definition upper :: "string \<Rightarrow> string" where
  \<comment> \<open>\<open>str.upper()\<close>\<close>
  "upper s = map upper_char s"

definition is_space :: "char \<Rightarrow> bool" where
  \<comment> \<open>\<open>str.isspace()\<close> on ASCII: TAB, LF, VT, FF, CR, FS, GS, RS, US and the blank\<close>
  "is_space c =
     (c \<in> set [CHR 0x09, CHR 0x0A, CHR 0x0B, CHR 0x0C, CHR 0x0D,
                CHR 0x1C, CHR 0x1D, CHR 0x1E, CHR 0x1F, CHR 0x20])"

definition py_strip :: "string \<Rightarrow> string" where
  \<comment> \<open>\<open>str.strip()\<close>\<close>
  "py_strip s = rev (dropWhile is_space (rev (dropWhile is_space s)))"

definition strip_chars :: "string \<Rightarrow> string \<Rightarrow> string" where
  \<comment> \<open>\<open>str.strip(chars)\<close>\<close>
  "strip_chars chars s =
     rev (dropWhile (\<lambda>c. c \<in> set chars) (rev (dropWhile (\<lambda>c. c \<in> set chars) s)))"

fun split_ws_from :: "string \<Rightarrow> string \<Rightarrow> string list" where
  "split_ws_from cur [] = (if cur = [] then [] else [cur])"
| "split_ws_from cur (c # cs) =
     (if is_space c then (if cur = [] then split_ws_from [] cs else cur # split_ws_from [] cs)
      else split_ws_from (cur @ [c]) cs)"

definition py_split :: "string \<Rightarrow> string list" where
  \<comment> \<open>\<open>str.split()\<close>: the maximal runs of non-whitespace\<close>
  "py_split s = split_ws_from [] s"

fun split_on :: "char \<Rightarrow> string \<Rightarrow> string list" where
  \<comment> \<open>\<open>str.split(sep)\<close> for a separator of one character\<close>
  "split_on sep [] = [[]]"
| "split_on sep (c # cs) =
     (if c = sep then [] # split_on sep cs
      else (case split_on sep cs of [] \<Rightarrow> [[c]] | x # xs \<Rightarrow> (c # x) # xs))"

definition startswith :: "string \<Rightarrow> string \<Rightarrow> bool" where
  \<comment> \<open>\<open>s.startswith(p)\<close>\<close>
  "startswith s p = prefix p s"

fun py_in :: "string \<Rightarrow> string \<Rightarrow> bool" where
  \<comment> \<open>\<open>sub in s\<close>: substring containment\<close>
  "py_in sub [] = (sub = [])"
| "py_in sub (c # cs) = (prefix sub (c # cs) \<or> py_in sub cs)"

datatype error =
    ValueError
  | IndexError
  | ZeroDivisionError
  | FileNotFoundError string
  | RuntimeError string

definition item :: "'a list \<Rightarrow> nat \<Rightarrow> error + 'a" where
  \<comment> \<open>\<open>xs[i]\<close> for \<open>i \<ge> 0\<close>\<close>
  "item xs i = (if i < length xs then Inr (xs ! i) else Inl IndexError)"

subsection \<open>\<open>float(s)\<close>\<close>

definition is_digit :: "char \<Rightarrow> bool" where
  "is_digit c = (c \<in> set ''0123456789'')"

definition digit_val :: "char \<Rightarrow> int" where
  "digit_val c = of_char c - 48"

definition is_numchar :: "char \<Rightarrow> bool" where
  "is_numchar c = (is_digit c \<or> c = CHR ''_'')"

fun digitpart_ok :: "string \<Rightarrow> bool" where
  \<comment> \<open>\<open>digit (["_"] digit)*\<close>\<close>
  "digitpart_ok [] = False"
| "digitpart_ok [c] = is_digit c"
| "digitpart_ok (c # d # ds) =
     (is_digit c \<and> (if d = CHR ''_'' then digitpart_ok ds else digitpart_ok (d # ds)))"

definition digits_value :: "string \<Rightarrow> int" where
  "digits_value s = fold (\<lambda>c n. 10 * n + digit_val c) (filter is_digit s) 0"

definition split_sign :: "string \<Rightarrow> bool \<times> string" where
  "split_sign s =
     (case s of
        [] \<Rightarrow> (False, s)
      | c # r \<Rightarrow> if c = CHR ''-'' then (True, r) else if c = CHR ''+'' then (False, r)
                 else (False, s))"

definition parse_exponent :: "string \<Rightarrow> int option" where
  \<comment> \<open>the text after the mantissa: nothing, or \<open>E [sign] digitpart\<close>\<close>
  "parse_exponent s =
     (case s of
        [] \<Rightarrow> Some 0
      | c # r \<Rightarrow>
          if c = CHR ''E'' \<or> c = CHR ''e'' then
            (case split_sign r of
               (neg, ds) \<Rightarrow>
                 if digitpart_ok ds
                 then Some (if neg then - digits_value ds else digits_value ds)
                 else None)
          else None)"

definition py_float :: "string \<Rightarrow> real option" where
  \<comment> \<open>\<open>float(s)\<close>: \<open>None\<close> is ValueError. The decimal syntax
      \<open>[sign] (digitpart ["." [digitpart]] | "." digitpart) [exponent]\<close> between optional
      whitespace; the literals inf, infinity and nan, which denote no real number, are
      outside the model and count as malformed.\<close>
  "py_float s0 =
     (case split_sign (py_strip s0) of
        (neg, s1) \<Rightarrow>
          let ip = takeWhile is_numchar s1;
              s2 = dropWhile is_numchar s1;
              dot = (s2 \<noteq> [] \<and> hd s2 = CHR ''.'');
              fp = (if dot then takeWhile is_numchar (tl s2) else []);
              s3 = (if dot then dropWhile is_numchar (tl s2) else s2)
          in if (ip = [] \<or> digitpart_ok ip) \<and> (fp = [] \<or> digitpart_ok fp)
                \<and> (ip \<noteq> [] \<or> fp \<noteq> [])
             then (case parse_exponent s3 of
                     None \<Rightarrow> None
                   | Some e \<Rightarrow>
                       let mant = real_of_int (digits_value ip)
                                  + real_of_int (digits_value fp) / 10 ^ length (filter is_digit fp);
                           v = (if 0 \<le> e then mant * 10 ^ nat e else mant / 10 ^ nat (- e))
                       in Some (if neg then - v else v))
             else None)"

section \<open>Toolpath parser (\<open>gcode_parser.py\<close>)\<close>

record path_segment =
  seg_start :: "real list"
  seg_end :: "real list"
  rapid :: bool

record preview =
  segments :: "path_segment list"
  bbox_min :: "real list"
  bbox_max :: "real list"

text \<open>The fields \<open>position\<close> and \<open>absolute\<close>, of \<open>GCodeParser\<close> and of
  \<open>SimpleMoveTracker\<close> alike.\<close>

record motion =
  position :: "real list"
  absolute :: bool

definition reset :: motion where
  "reset = \<lparr>position = [0, 0, 0], absolute = True\<rparr>"

definition set_axis :: "motion \<Rightarrow> string \<Rightarrow> string \<Rightarrow> nat \<Rightarrow> real list \<Rightarrow> error + real list" where
  \<comment> \<open>\<open>if tok.startswith(L): target[i] = float(tok[1:]) if self.absolute
      else self.position[i] + float(tok[1:])\<close>\<close>
  "set_axis m tok letter i target =
     (if startswith tok letter then
        (if absolute m then
           (case py_float (drop 1 tok) of
              None \<Rightarrow> Inl ValueError
            | Some v \<Rightarrow> if i < length target then Inr (target[i := v]) else Inl IndexError)
         else if i < length (position m) then
           (case py_float (drop 1 tok) of
              None \<Rightarrow> Inl ValueError
            | Some v \<Rightarrow>
                if i < length target then Inr (target[i := position m ! i + v])
                else Inl IndexError)
         else Inl IndexError)
      else Inr target)"

fun move_tokens :: "motion \<Rightarrow> string list \<Rightarrow> real list \<Rightarrow> error + real list" where
  \<comment> \<open>the loop \<open>for tok in tokens\<close>, shared by the parser and the tracker\<close>
  "move_tokens m [] target = Inr target"
| "move_tokens m (tok # toks) target =
     (case set_axis m tok ''X'' 0 target of
        Inl e \<Rightarrow> Inl e
      | Inr t1 \<Rightarrow>
          (case set_axis m tok ''Y'' 1 t1 of
             Inl e \<Rightarrow> Inl e
           | Inr t2 \<Rightarrow>
               (case set_axis m tok ''Z'' 2 t2 of
                  Inl e \<Rightarrow> Inl e
                | Inr t3 \<Rightarrow> move_tokens m toks t3)))"

definition extract_move :: "motion \<Rightarrow> string \<Rightarrow> error + (real list \<times> real list)" where
  \<comment> \<open>\<open>GCodeParser._extract_move\<close>\<close>
  "extract_move m line =
     (case move_tokens m (py_split line) (position m) of
        Inl e \<Rightarrow> Inl e
      | Inr target \<Rightarrow> Inr (position m, target))"

definition set_mode :: "string \<Rightarrow> motion \<Rightarrow> motion" where
  \<comment> \<open>the two tests for G90 and G91, in this order\<close>
  "set_mode code m =
     (let m1 = (if py_in ''G90'' code then m\<lparr>absolute := True\<rparr> else m)
      in if py_in ''G91'' code then m1\<lparr>absolute := False\<rparr> else m1)"

definition is_move :: "string \<Rightarrow> bool" where
  "is_move code = (startswith code ''G0'' \<or> startswith code ''G1'')"

definition strip_comment :: "string \<Rightarrow> string" where
  \<comment> \<open>\<open>raw.split(";")[0].split("(")[0].strip()\<close>\<close>
  "strip_comment raw = py_strip (hd (split_on (CHR ''('') (hd (split_on (CHR '';'') raw))))"

text \<open>The bounding box: \<open>None\<close> while \<open>bbox_min\<close> and \<open>bbox_max\<close> are still the
  vectors of plus and minus infinity they start as. The positions it is extended by are
  those of the parser, which have three components.\<close>

type_synonym bbox = "(real list \<times> real list) option"

definition extend_bbox :: "bbox \<Rightarrow> real list \<Rightarrow> real list \<Rightarrow> real list \<times> real list" where
  "extend_bbox bb s e =
     (case bb of
        None \<Rightarrow> (map (\<lambda>i. min (s ! i) (e ! i)) [0, 1, 2],
                 map (\<lambda>i. max (s ! i) (e ! i)) [0, 1, 2])
      | Some (lo, hi) \<Rightarrow>
          (map (\<lambda>i. min (lo ! i) (min (s ! i) (e ! i))) [0, 1, 2],
           map (\<lambda>i. max (hi ! i) (max (s ! i) (e ! i))) [0, 1, 2]))"

fun parse_lines ::
  "string list \<Rightarrow> motion \<Rightarrow> path_segment list \<Rightarrow> bbox
     \<Rightarrow> error + (motion \<times> path_segment list \<times> bbox)" where
  "parse_lines [] m segs bb = Inr (m, segs, bb)"
| "parse_lines (raw # rest) m segs bb =
     (let line = strip_comment raw in
      if line = [] then parse_lines rest m segs bb
      else
        let code = upper line; m2 = set_mode code m in
        if is_move code then
          (case extract_move m2 code of
             Inl e \<Rightarrow> Inl e
           | Inr (delta, new_pos) \<Rightarrow>
               parse_lines rest (m2\<lparr>position := new_pos\<rparr>)
                 (segs @ [\<lparr>seg_start = position m2, seg_end = new_pos,
                           rapid = startswith code ''G0''\<rparr>])
                 (Some (extend_bbox bb (position m2) new_pos)))
        else parse_lines rest m2 segs bb)"

subsection \<open>Files as text\<close>

text \<open>A file's content is its decoded text. Opening in text mode translates the line
  endings CR LF and CR to LF (universal newlines).\<close>

fun universal_newlines :: "string \<Rightarrow> string" where
  "universal_newlines [] = []"
| "universal_newlines [c] = (if c = CHR 0x0D then [CHR 0x0A] else [c])"
| "universal_newlines (c # d # ds) =
     (if c = CHR 0x0D \<and> d = CHR 0x0A then CHR 0x0A # universal_newlines ds
      else if c = CHR 0x0D then CHR 0x0A # universal_newlines (d # ds)
      else c # universal_newlines (d # ds))"

definition read_text :: "string \<Rightarrow> string" where
  \<comment> \<open>\<open>path.read_text(encoding="utf-8", errors="ignore")\<close>\<close>
  "read_text content = universal_newlines content"

definition is_linebreak :: "char \<Rightarrow> bool" where
  \<comment> \<open>the ASCII line boundaries of \<open>str.splitlines()\<close>: LF, CR, VT, FF, FS, GS, RS\<close>
  "is_linebreak c =
     (c \<in> set [CHR 0x0A, CHR 0x0D, CHR 0x0B, CHR 0x0C, CHR 0x1C, CHR 0x1D, CHR 0x1E])"

fun splitlines_from :: "string \<Rightarrow> string \<Rightarrow> string list" where
  "splitlines_from cur [] = (if cur = [] then [] else [cur])"
| "splitlines_from cur [c] = (if is_linebreak c then [cur] else [cur @ [c]])"
| "splitlines_from cur (c # d # ds) =
     (if c = CHR 0x0D \<and> d = CHR 0x0A then cur # splitlines_from [] ds
      else if is_linebreak c then cur # splitlines_from [] (d # ds)
      else splitlines_from (cur @ [c]) (d # ds))"

definition splitlines :: "string \<Rightarrow> string list" where
  \<comment> \<open>\<open>str.splitlines()\<close>\<close>
  "splitlines s = splitlines_from [] s"

fun file_lines_from :: "string \<Rightarrow> string \<Rightarrow> string list" where
  \<comment> \<open>iterating over a text file: each line ends after its LF\<close>
  "file_lines_from cur [] = (if cur = [] then [] else [cur])"
| "file_lines_from cur (c # cs) =
     (if c = CHR 0x0A then (cur @ [c]) # file_lines_from [] cs
      else file_lines_from (cur @ [c]) cs)"

definition line_count :: "string \<Rightarrow> int" where
  \<comment> \<open>\<open>FileStore.line_count\<close>: \<open>sum(1 for _ in f)\<close> on the file opened in text mode\<close>
  "line_count content = int (length (file_lines_from [] (universal_newlines content)))"

definition parse_file :: "string \<Rightarrow> error + preview" where
  \<comment> \<open>\<open>GCodeParser.parse_file\<close>, on the content of the file at \<open>path\<close>\<close>
  "parse_file content =
     (case parse_lines (splitlines (read_text content)) reset [] None of
        Inl e \<Rightarrow> Inl e
      | Inr (m, segs, bb) \<Rightarrow>
          (case bb of
             None \<Rightarrow> Inr \<lparr>segments = segs, bbox_min = [0, 0, 0], bbox_max = [0, 0, 0]\<rparr>
           | Some (lo, hi) \<Rightarrow> Inr \<lparr>segments = segs, bbox_min = lo, bbox_max = hi\<rparr>))"

section \<open>Data model (\<open>models.py\<close>, \<open>config.py\<close>)\<close>

datatype spindle_direction = CW | CCW | OFF

datatype machine_status = Idle | Running | Paused | Homing | Alarm | Stopped | Complete

record tool =
  t_id :: int
  t_name :: string
  diameter_mm :: real
  length_mm :: real
  t_rpm :: int
  feed_mm_min :: real
  t_direction :: spindle_direction
  climb :: bool

record work_offset =
  wo_x :: real
  wo_y :: real
  wo_z :: real

record machine_state =
  status :: machine_status
  machine_pos :: "real list"
  work_offset :: work_offset
  feed_rate :: real
  spindle_rpm :: real
  spindle_dir :: spindle_direction
  tool :: "tool option"
  current_line :: int
  total_lines :: int
  job_file :: "string option"

record job_request =
  filename :: string
  tool_id :: "int option"

record config =
  spindle_min_rpm :: real
  spindle_max_rpm :: real
  dac_vref :: real

section \<open>Spindle shim and status frames (\<open>grbl_client.py\<close>)\<close>

text \<open>The calls made on the peripheral sinks, in the order they are made.\<close>

datatype sink_call = SetDirection spindle_direction | SetVoltage real | VacuumSetState bool

definition apply_spindle ::
  "config \<Rightarrow> real \<Rightarrow> spindle_direction \<Rightarrow> sink_call list \<Rightarrow> error + sink_call list" where
  \<comment> \<open>\<open>SpindleShim.apply\<close>, in exact arithmetic; the division raises when \<open>max_rpm\<close>
      is zero, before any call on the sink\<close>
  "apply_spindle cfg rpm_in dir calls =
     (let max_rpm = spindle_max_rpm cfg;
          min_rpm = spindle_min_rpm cfg;
          rpm_clamped = min (max rpm_in min_rpm) max_rpm
      in if max_rpm = 0 then Inl ZeroDivisionError
         else Inr (calls @ [SetDirection dir, SetVoltage (rpm_clamped / max_rpm * dac_vref cfg)]))"

text \<open>The payload dictionary of a status frame: a key that is absent is \<open>None\<close>.\<close>

record payload =
  pl_status :: "machine_status option"
  pl_machine_pos :: "real list option"
  pl_work_offset :: "real list option"
  pl_feed_rate :: "real option"
  pl_spindle_rpm :: "real option"

definition and_then :: "error + 'a \<Rightarrow> ('a \<Rightarrow> error + 'b) \<Rightarrow> error + 'b" where
  "and_then r f = (case r of Inl e \<Rightarrow> Inl e | Inr v \<Rightarrow> f v)"

fun floats :: "string list \<Rightarrow> error + real list" where
  \<comment> \<open>\<open>[float(c) for c in coords]\<close>\<close>
  "floats [] = Inr []"
| "floats (c # cs) =
     (case py_float c of
        None \<Rightarrow> Inl ValueError
      | Some v \<Rightarrow> and_then (floats cs) (\<lambda>vs. Inr (v # vs)))"

definition state_words :: "string list" where
  "state_words = [''Idle'', ''Run'', ''Hold'', ''Alarm'', ''Home'']"

definition word_status :: "string \<Rightarrow> machine_status" where
  "word_status w =
     (case map_of [(''Idle'', Idle), (''Run'', Running), (''Hold'', Paused),
                   (''Home'', Homing), (''Alarm'', Alarm)] w of
        None \<Rightarrow> Idle
      | Some v \<Rightarrow> v)"

definition coords_of :: "string \<Rightarrow> error + string list" where
  \<comment> \<open>\<open>token.split(":")[1].split(",")\<close>\<close>
  "coords_of token = and_then (item (split_on (CHR '':'') token) 1) (\<lambda>f. Inr (split_on (CHR '','') f))"

text \<open>The body of the loop of \<open>_parse_status\<close> is four tests on the token, one after
  the other (the fifth, for \<open>Ov:\<close>, does nothing).\<close>

definition token_state :: "string \<Rightarrow> payload \<Rightarrow> payload" where
  \<comment> \<open>\<open>if token in ("Idle", "Run", "Hold", "Alarm", "Home")\<close>\<close>
  "token_state token p =
     (if token \<in> set state_words then p\<lparr>pl_status := Some (word_status token)\<rparr> else p)"

definition token_mpos :: "string \<Rightarrow> payload \<Rightarrow> error + payload" where
  \<comment> \<open>\<open>if token.startswith("MPos:")\<close>\<close>
  "token_mpos token p =
     (if startswith token ''MPos:''
      then and_then (coords_of token) (\<lambda>coords.
           and_then (floats coords) (\<lambda>vs. Inr (p\<lparr>pl_machine_pos := Some vs\<rparr>)))
      else Inr p)"

definition token_wco :: "string \<Rightarrow> payload \<Rightarrow> error + payload" where
  \<comment> \<open>\<open>if token.startswith("WCO:")\<close>\<close>
  "token_wco token p =
     (if startswith token ''WCO:''
      then and_then (coords_of token) (\<lambda>coords.
           and_then (floats coords) (\<lambda>vs. Inr (p\<lparr>pl_work_offset := Some vs\<rparr>)))
      else Inr p)"

definition token_fs :: "string \<Rightarrow> payload \<Rightarrow> error + payload" where
  \<comment> \<open>\<open>if token.startswith("FS:")\<close>: \<open>float(vals[0])\<close>, then \<open>float(vals[1])\<close>\<close>
  "token_fs token p =
     (if startswith token ''FS:''
      then and_then (coords_of token) (\<lambda>vals.
           and_then (item vals 0) (\<lambda>v0.
           (case py_float v0 of
              None \<Rightarrow> Inl ValueError
            | Some feed \<Rightarrow>
                and_then (item vals 1) (\<lambda>v1.
                (case py_float v1 of
                   None \<Rightarrow> Inl ValueError
                 | Some srpm \<Rightarrow>
                     Inr (p\<lparr>pl_feed_rate := Some feed, pl_spindle_rpm := Some srpm\<rparr>))))))
      else Inr p)"

definition parse_token :: "string \<Rightarrow> payload \<Rightarrow> error + payload" where
  "parse_token token p =
     and_then (token_mpos token (token_state token p)) (\<lambda>p2.
     and_then (token_wco token p2) (token_fs token))"

fun parse_tokens :: "string list \<Rightarrow> payload \<Rightarrow> error + payload" where
  "parse_tokens [] p = Inr p"
| "parse_tokens (token # rest) p = and_then (parse_token token p) (parse_tokens rest)"

definition frame_fields :: "string \<Rightarrow> string list" where
  \<comment> \<open>\<open>status_line.strip("<>").split("|")\<close>\<close>
  "frame_fields status_line = split_on (CHR ''|'') (strip_chars ''<>'' status_line)"

definition parse_status :: "string \<Rightarrow> error + payload" where
  \<comment> \<open>\<open>GrblClient._parse_status\<close>: the payload starts with the status Idle\<close>
  "parse_status status_line =
     parse_tokens (frame_fields status_line)
       \<lparr>pl_status = Some Idle, pl_machine_pos = None, pl_work_offset = None,
        pl_feed_rate = None, pl_spindle_rpm = None\<rparr>"

section \<open>File store (\<open>storage.py\<close>)\<close>

text \<open>A POSIX path: whether it is absolute, and its components. The file system maps
  a path to the content of the file there; it holds regular files only, so a path that
  exists can be opened and read.\<close>

datatype path = Path (is_abs: bool) (parts: "string list")

type_synonym file_system = "path \<Rightarrow> string option"

definition path_of :: "string \<Rightarrow> path" where
  \<comment> \<open>\<open>PurePosixPath(s)\<close>: empty components and \<open>.\<close> are dropped, \<open>..\<close> is kept\<close>
  "path_of s =
     Path (startswith s ''/'') (filter (\<lambda>p. p \<noteq> [] \<and> p \<noteq> ''.'') (split_on (CHR ''/'') s))"

definition join_path :: "path \<Rightarrow> string \<Rightarrow> path" where
  \<comment> \<open>\<open>self.root / s\<close>: an absolute \<open>s\<close> replaces the root\<close>
  "join_path root_dir s =
     (if startswith s ''/'' then path_of s
      else Path (is_abs root_dir) (parts root_dir @ parts (path_of s)))"

definition basename :: "string \<Rightarrow> string" where
  \<comment> \<open>\<open>os.path.basename\<close>: the text after the last slash\<close>
  "basename s = rev (takeWhile (\<lambda>c. c \<noteq> CHR ''/'') (rev s))"

definition save_file :: "path \<Rightarrow> string \<Rightarrow> string \<Rightarrow> file_system \<Rightarrow> path \<times> file_system" where
  \<comment> \<open>\<open>FileStore.save_file\<close>\<close>
  "save_file root_dir name data fs =
     (let safe_name = basename name; target = join_path root_dir safe_name
      in (target, fs(target \<mapsto> data)))"

definition delete :: "path \<Rightarrow> string \<Rightarrow> file_system \<Rightarrow> bool \<times> file_system" where
  \<comment> \<open>\<open>FileStore.delete\<close>\<close>
  "delete root_dir name fs =
     (let p = join_path root_dir name
      in if fs p \<noteq> None then (True, fs(p := None)) else (False, fs))"

definition path_for :: "path \<Rightarrow> string \<Rightarrow> path" where
  \<comment> \<open>\<open>FileStore.path_for\<close>\<close>
  "path_for root_dir name = join_path root_dir name"

fun resolve_parts :: "string list \<Rightarrow> string list \<Rightarrow> string list" where
  \<comment> \<open>what a path names once every \<open>..\<close> has climbed to the parent\<close>
  "resolve_parts seen [] = rev seen"
| "resolve_parts seen (p # ps) =
     (if p = ''..'' then resolve_parts (tl seen) ps else resolve_parts (p # seen) ps)"

definition inside :: "path \<Rightarrow> path \<Rightarrow> bool" where
  \<comment> \<open>\<open>inside root_dir p\<close>: \<open>p\<close> names a place strictly below the directory \<open>root_dir\<close>\<close>
  "inside root_dir p =
     (is_abs p = is_abs root_dir
      \<and> strict_prefix (resolve_parts [] (parts root_dir)) (resolve_parts [] (parts p)))"

section \<open>Machine controller (\<open>machine.py\<close>)\<close>

definition consume :: "string \<Rightarrow> motion \<Rightarrow> (error + real list) \<times> motion" where
  \<comment> \<open>\<open>SimpleMoveTracker.consume\<close>: the result, and the tracker as the call leaves it\<close>
  "consume line t =
     (let code = upper line; t2 = set_mode code t in
      if is_move code then
        (case move_tokens t2 (py_split code) (position t2) of
           Inl e \<Rightarrow> (Inl e, t2)
         | Inr target \<Rightarrow> (Inr target, t2\<lparr>position := target\<rparr>))
      else (Inr (position t2), t2))"

text \<open>
  The controller: the machine state, the link (\<open>connected\<close>, the queue of lines and the
  real-time bytes written), the stop flag, the move tracker, the calls made on the sinks,
  and the lines handed to the job thread when one is spawned. Writes to the serial device
  are taken to succeed.
\<close>

record controller =
  state :: machine_state
  connected :: bool
  tx_queue :: "string list"
  realtime :: "string list"
  stop_flag :: bool
  move_tracker :: motion
  sink_calls :: "sink_call list"
  job_thread :: "string list option"

definition ingest_status :: "payload \<Rightarrow> machine_state \<Rightarrow> error option \<times> machine_state" where
  \<comment> \<open>\<open>MachineController._ingest_status\<close>: the fields are written in this order, and a
      work offset of fewer than three numbers raises after the others are written\<close>
  "ingest_status p st =
     (let s1 = (case pl_status p of None \<Rightarrow> st | Some v \<Rightarrow> st\<lparr>status := v\<rparr>);
          s2 = (case pl_machine_pos p of None \<Rightarrow> s1 | Some v \<Rightarrow> s1\<lparr>machine_pos := v\<rparr>);
          s3 = (case pl_feed_rate p of None \<Rightarrow> s2 | Some v \<Rightarrow> s2\<lparr>feed_rate := v\<rparr>);
          s4 = (case pl_spindle_rpm p of None \<Rightarrow> s3 | Some v \<Rightarrow> s3\<lparr>spindle_rpm := v\<rparr>)
      in case pl_work_offset p of
           None \<Rightarrow> (None, s4)
         | Some w \<Rightarrow>
             (case w of
                a # b # c # _ \<Rightarrow> (None, s4\<lparr>work_offset := \<lparr>wo_x = a, wo_y = b, wo_z = c\<rparr>\<rparr>)
              | _ \<Rightarrow> (Some IndexError, s4)))"

definition rx_line :: "string \<Rightarrow> machine_state \<Rightarrow> error option \<times> machine_state" where
  \<comment> \<open>one turn of \<open>GrblClient._rx_loop\<close> on the line read, with the controller's callback\<close>
  "rx_line data st =
     (let line = py_strip data in
      if line = [] then (None, st)
      else if startswith line ''<'' then
        (case parse_status line of
           Inl e \<Rightarrow> (Some e, st)
         | Inr p \<Rightarrow> ingest_status p st)
      else (None, st))"

definition spindle_tokens :: "string \<Rightarrow> machine_state \<Rightarrow> machine_state" where
  \<comment> \<open>\<open>MachineController._handle_spindle_tokens\<close>, up to the end of its locked block:
      the scan of the line and the two writes to the state\<close>
  "spindle_tokens line st =
     (let code = upper line;
          dir = (if py_in ''M3'' code then Some CW
                 else if py_in ''M4'' code then Some CCW
                 else if py_in ''M5'' code then Some OFF
                 else None);
          new_rpm = (if py_in ''S'' code then
                       (case filter (\<lambda>t. startswith t ''S'') (py_split code) of
                          [] \<Rightarrow> None
                        | token # _ \<Rightarrow> py_float (drop 1 token))
                     else None);
          s1 = (case new_rpm of None \<Rightarrow> st | Some r \<Rightarrow> st\<lparr>spindle_rpm := r\<rparr>)
      in (case dir of None \<Rightarrow> s1 | Some d \<Rightarrow> s1\<lparr>spindle_dir := d\<rparr>))"

definition handle_spindle_tokens :: "config \<Rightarrow> string \<Rightarrow> controller \<Rightarrow> error option \<times> controller" where
  \<comment> \<open>\<open>MachineController._handle_spindle_tokens\<close>: the scan, then
      \<open>self.spindle.apply(self.state.spindle_rpm, self.state.spindle_dir)\<close>\<close>
  "handle_spindle_tokens cfg line c =
     (let s2 = spindle_tokens line (state c)
      in case apply_spindle cfg (spindle_rpm s2) (spindle_dir s2) (sink_calls c) of
           Inl e \<Rightarrow> (Some e, c\<lparr>state := s2\<rparr>)
         | Inr calls \<Rightarrow> (None, c\<lparr>state := s2, sink_calls := calls\<rparr>))"

definition set_tool :: "(int \<Rightarrow> tool option) \<Rightarrow> int option \<Rightarrow> controller \<Rightarrow> tool option \<times> controller" where
  \<comment> \<open>\<open>MachineController.set_tool\<close>: an id that is \<open>None\<close> or 0 is no tool\<close>
  "set_tool get_tool tid c =
     (let found = (case tid of None \<Rightarrow> None | Some i \<Rightarrow> if i = 0 then None else get_tool i)
      in (found, c\<lparr>state := (state c)\<lparr>tool := found\<rparr>\<rparr>))"

definition start_job ::
  "config \<Rightarrow> path \<Rightarrow> file_system \<Rightarrow> (int \<Rightarrow> tool option) \<Rightarrow> job_request \<Rightarrow> controller
     \<Rightarrow> error option \<times> controller" where
  \<comment> \<open>\<open>MachineController.start_job\<close>, up to the spawning of the job thread\<close>
  "start_job cfg root_dir fs get_tool request c =
     (let p = path_for root_dir (filename request) in
      case fs p of
        None \<Rightarrow> (Some (FileNotFoundError (filename request)), c)
      | Some content \<Rightarrow>
          if status (state c) \<in> {Running, Paused}
          then (Some (RuntimeError ''Job already running''), c)
          else
            let c1 = c\<lparr>state := (state c)\<lparr>status := Running,
                                          job_file := Some (filename request),
                                          current_line := 0,
                                          total_lines := line_count content\<rparr>\<rparr>;
                (found, c2) = set_tool get_tool (tool_id request) c1;
                launch = (\<lambda>c3. (None,
                            c3\<lparr>sink_calls := sink_calls c3 @ [VacuumSetState True],
                               stop_flag := False,
                               move_tracker := reset,
                               job_thread := Some (splitlines (read_text content))\<rparr>))
            in (case found of
                  None \<Rightarrow> launch c2
                | Some t \<Rightarrow>
                    (let c3 = c2\<lparr>state := (state c2)\<lparr>spindle_rpm := real_of_int (t_rpm t),
                                                    spindle_dir := t_direction t\<rparr>\<rparr>
                     in (case apply_spindle cfg (real_of_int (t_rpm t)) (t_direction t)
                                 (sink_calls c3) of
                           Inl e \<Rightarrow> (Some e, c3)
                         | Inr calls \<Rightarrow> launch (c3\<lparr>sink_calls := calls\<rparr>)))))"

text \<open>
  The job thread. The pause gate re-checks the status and the stop flag until another
  thread changes one of them; run on its own, the thread that finds the status Paused
  waits there for ever (\<open>Waiting\<close>). An exception that leaves the loop ends the
  thread (\<open>Raised\<close>).
\<close>

datatype outcome = Finished controller | Raised error controller | Waiting controller

fun run_lines :: "config \<Rightarrow> nat \<Rightarrow> string list \<Rightarrow> controller \<Rightarrow> outcome" where
  "run_lines cfg idx [] c = Finished c"
| "run_lines cfg idx (raw # rest) c =
     (if stop_flag c then Finished c
      else if status (state c) = Paused then Waiting c
      else
        let line = py_strip raw in
        if line = [] then run_lines cfg (Suc idx) rest c
        else
          (case handle_spindle_tokens cfg line c of
             (Some e, c1) \<Rightarrow> Raised e c1
           | (None, c1) \<Rightarrow>
               if connected c1 then
                 run_lines cfg (Suc idx) rest
                   (c1\<lparr>tx_queue := tx_queue c1 @ [py_strip line @ [CHR 0x0A]],
                       state := (state c1)\<lparr>current_line := int idx\<rparr>\<rparr>)
               else
                 (case consume line (move_tracker c1) of
                    (Inl e, t) \<Rightarrow> Raised e (c1\<lparr>move_tracker := t\<rparr>)
                  | (Inr new_pos, t) \<Rightarrow>
                      run_lines cfg (Suc idx) rest
                        (c1\<lparr>move_tracker := t,
                            state := (state c1)\<lparr>machine_pos := new_pos,
                                                 current_line := int idx\<rparr>\<rparr>))))"

definition run_job :: "config \<Rightarrow> string list \<Rightarrow> controller \<Rightarrow> outcome" where
  \<comment> \<open>\<open>MachineController._run_job\<close>\<close>
  "run_job cfg lines c =
     (case run_lines cfg 1 lines c of
        Finished c1 \<Rightarrow>
          Finished (c1\<lparr>state := (state c1)\<lparr>status := (if stop_flag c1 then Stopped else Complete)\<rparr>,
                       sink_calls := sink_calls c1 @ [VacuumSetState False]\<rparr>)
      | Raised e c1 \<Rightarrow> Raised e c1
      | Waiting c1 \<Rightarrow> Waiting c1)"

definition send_realtime :: "string \<Rightarrow> controller \<Rightarrow> controller" where
  \<comment> \<open>\<open>if self.grbl.connected: self.grbl.realtime_command(code)\<close>\<close>
  "send_realtime code c = (if connected c then c\<lparr>realtime := realtime c @ [code]\<rparr> else c)"

definition pause :: "controller \<Rightarrow> controller" where
  "pause c =
     (let c1 = send_realtime ''!'' c
      in if status (state c1) = Running then c1\<lparr>state := (state c1)\<lparr>status := Paused\<rparr>\<rparr> else c1)"

definition resume :: "controller \<Rightarrow> controller" where
  "resume c =
     (let c1 = send_realtime ''~'' c
      in if status (state c1) = Paused then c1\<lparr>state := (state c1)\<lparr>status := Running\<rparr>\<rparr> else c1)"

definition stop :: "controller \<Rightarrow> controller" where
  "stop c =
     (let c1 = send_realtime [CHR 0x18] (c\<lparr>stop_flag := True\<rparr>)
      in c1\<lparr>state := (state c1)\<lparr>status := Stopped\<rparr>\<rparr>)"

definition home :: "controller \<Rightarrow> controller" where
  "home c =
     (let c1 = (if connected c then c\<lparr>tx_queue := tx_queue c @ [py_strip ''$H'' @ [CHR 0x0A]]\<rparr> else c)
      in c1\<lparr>state := (state c1)\<lparr>status := Homing\<rparr>\<rparr>)"

definition init_state :: machine_state where
  \<comment> \<open>\<open>MachineState(status=MachineStatus.idle)\<close>\<close>
  "init_state =
     \<lparr>status = Idle, machine_pos = [0, 0, 0],
      work_offset = \<lparr>wo_x = 0, wo_y = 0, wo_z = 0\<rparr>,
      feed_rate = 0, spindle_rpm = 0, spindle_dir = OFF, tool = None,
      current_line = 0, total_lines = 0, job_file = None\<rparr>"

definition init_controller :: controller where
  \<comment> \<open>\<open>MachineController.__init__\<close>, the link not connected\<close>
  "init_controller =
     \<lparr>state = init_state, connected = False, tx_queue = [], realtime = [],
      stop_flag = False, move_tracker = reset, sink_calls = [], job_thread = None\<rparr>"

definition default_config :: config where
  \<comment> \<open>the values of \<open>Config\<close> when the environment sets none\<close>
  "default_config = \<lparr>spindle_min_rpm = 0, spindle_max_rpm = 24000, dac_vref = 5\<rparr>"

definition start_and_run ::
  "config \<Rightarrow> path \<Rightarrow> file_system \<Rightarrow> (int \<Rightarrow> tool option) \<Rightarrow> job_request \<Rightarrow> controller
     \<Rightarrow> outcome" where
  \<comment> \<open>\<open>start_job\<close>, then the job thread it spawned, run to its end with no other
      thread acting\<close>
  "start_and_run cfg root_dir fs get_tool request c =
     (case start_job cfg root_dir fs get_tool request c of
        (Some e, c1) \<Rightarrow> Raised e c1
      | (None, c1) \<Rightarrow>
          (case job_thread c1 of
             None \<Rightarrow> Finished c1
           | Some lines \<Rightarrow> run_job cfg lines c1))"

fun final :: "outcome \<Rightarrow> controller" where
  \<comment> \<open>the controller as the thread leaves it\<close>
  "final (Finished c) = c"
| "final (Raised e c) = c"
| "final (Waiting c) = c"

definition gcode_dir :: path where
  \<comment> \<open>\<open>Config.gcode_dir\<close>, for an installation under \<open>/srv/cnc\<close>\<close>
  "gcode_dir = Path True [''srv'', ''cnc'', ''data'', ''gcode'']"

definition one_file :: "string \<Rightarrow> string \<Rightarrow> file_system" where
  \<comment> \<open>a content directory that holds one file\<close>
  "one_file name content = Map.empty(join_path gcode_dir name \<mapsto> content)"

fun finished :: "outcome \<Rightarrow> bool" where
  "finished (Finished c) = True"
| "finished (Raised e c) = False"
| "finished (Waiting c) = False"

definition emits_segment :: "string \<Rightarrow> bool" where
  \<comment> \<open>the uppercased residue of the line, after comment stripping and trimming, begins
      with the characters G0 or G1\<close>
  "emits_segment raw = is_move (upper (strip_comment raw))"

definition first_token_G0_G1 :: "string \<Rightarrow> bool" where
  \<comment> \<open>the spec's words: the first token of the line, after comment stripping and
      trimming, is G0 or G1 (in either case of the letter)\<close>
  "first_token_G0_G1 raw =
     (case py_split (upper (strip_comment raw)) of
        [] \<Rightarrow> False
      | t # _ \<Rightarrow> t = ''G0'' \<or> t = ''G1'')"

definition state_word_of :: "string list \<Rightarrow> machine_status" where
  \<comment> \<open>the status a frame reports: that of the last state word among its fields, and
      Idle when there is none\<close>
  "state_word_of toks =
     (case filter (\<lambda>t. t \<in> set state_words) toks of
        [] \<Rightarrow> Idle
      | w # ws \<Rightarrow> word_status (last (w # ws)))"

definition has_field :: "string \<Rightarrow> string list \<Rightarrow> bool" where
  \<comment> \<open>some field of the frame starts with the tag\<close>
  "has_field tag toks = list_ex (\<lambda>t. startswith t tag) toks"

definition no_comment :: "string \<Rightarrow> bool" where
  \<comment> \<open>a line with neither of the characters that start a comment\<close>
  "no_comment raw = (CHR '';'' \<notin> set raw \<and> CHR ''('' \<notin> set raw)"

definition plain_lines :: "string \<Rightarrow> bool" where
  \<comment> \<open>an ASCII file with none of VT, FF, FS, GS, RS, the line boundaries of
      \<open>splitlines\<close> that end no line of a file read line by line\<close>
  "plain_lines content =
     (\<forall>c \<in> set content.
        (of_char c :: nat) < 128
        \<and> c \<notin> set [CHR 0x0B, CHR 0x0C, CHR 0x1C, CHR 0x1D, CHR 0x1E])"

section \<open>Properties\<close>

subsection \<open>Auxiliary facts\<close>

lemma is_move_Nil [simp]: "\<not> is_move []"
  by (simp add: is_move_def startswith_def)

lemma set_mode_position [simp]: "position (set_mode code m) = position m"
  by (simp add: set_mode_def Let_def)

lemma handle_spindle_tokens_keeps:
  assumes "handle_spindle_tokens cfg line c = (r, c1)"
  shows "current_line (state c1) = current_line (state c)"
    and "total_lines (state c1) = total_lines (state c)"
    and "status (state c1) = status (state c)"
    and "connected c1 = connected c" and "stop_flag c1 = stop_flag c"
    and "move_tracker c1 = move_tracker c"
  using assms
  by (auto simp: handle_spindle_tokens_def spindle_tokens_def Let_def
           split: sum.splits option.splits if_splits)

lemma handle_spindle_tokens_ok:
  "spindle_max_rpm cfg \<noteq> 0 \<Longrightarrow> fst (handle_spindle_tokens cfg line c) = None"
  by (simp add: handle_spindle_tokens_def apply_spindle_def Let_def)

subsection \<open>Starting a job while one is active\<close>

text \<open>
  Claim C3. When the file exists and the status is Running or Paused, \<open>start_job\<close> raises
  the runtime error "Job already running", which is not the error of a missing file, and
  the controller it leaves is the controller it found: no field is changed.
\<close>

theorem start_job_already_running:
  assumes "fs (path_for root_dir (filename request)) = Some content"
      and "status (state c) \<in> {Running, Paused}"
  shows "start_job cfg root_dir fs get_tool request c
           = (Some (RuntimeError ''Job already running''), c)
         \<and> RuntimeError ''Job already running'' \<noteq> FileNotFoundError (filename request)"
  using assms by (simp add: start_job_def)

theorem start_job_already_running_witness:
  "one_file ''job.nc'' ''G0 X1''
      (path_for gcode_dir (filename \<lparr>filename = ''job.nc'', tool_id = None\<rparr>)) = Some ''G0 X1''
   \<and> status (state (pause (init_controller\<lparr>state := init_state\<lparr>status := Running\<rparr>\<rparr>)))
        \<in> {Running, Paused}
   \<and> start_job default_config gcode_dir (one_file ''job.nc'' ''G0 X1'') (\<lambda>i. None)
        \<lparr>filename = ''job.nc'', tool_id = None\<rparr>
        (pause (init_controller\<lparr>state := init_state\<lparr>status := Running\<rparr>\<rparr>))
      = (Some (RuntimeError ''Job already running''),
         pause (init_controller\<lparr>state := init_state\<lparr>status := Running\<rparr>\<rparr>))"
  using start_job_already_running
          [of "one_file ''job.nc'' ''G0 X1''" gcode_dir
              "\<lparr>filename = ''job.nc'', tool_id = None\<rparr>" "''G0 X1''"
              "pause (init_controller\<lparr>state := init_state\<lparr>status := Running\<rparr>\<rparr>)"
              default_config "\<lambda>i. None"]
  by (simp add: one_file_def path_for_def pause_def send_realtime_def init_controller_def
        init_state_def)

subsection \<open>Operator commands and the status\<close>

text \<open>
  Claim C5, as stated, fails: \<open>stop\<close> has no guard, and from Idle it leaves the
  status Stopped.
\<close>

theorem stop_changes_idle_status:
  "status (state init_controller) = Idle \<and> status (state (stop init_controller)) = Stopped"
  by (simp add: stop_def send_realtime_def init_controller_def init_state_def Let_def)

text \<open>
  Claim C5, amended. \<open>pause\<close> outside Running and \<open>resume\<close> outside Paused leave the
  status as it is; \<open>stop\<close> sets Stopped and \<open>home\<close> sets Homing from every status.
\<close>

theorem operator_commands_status:
  "(status (state c) \<noteq> Running \<longrightarrow> status (state (pause c)) = status (state c))
   \<and> (status (state c) \<noteq> Paused \<longrightarrow> status (state (resume c)) = status (state c))
   \<and> status (state (stop c)) = Stopped
   \<and> status (state (home c)) = Homing"
  by (simp add: pause_def resume_def stop_def home_def send_realtime_def Let_def)

theorem operator_commands_status_witness:
  "status (state init_controller) \<noteq> Running
   \<and> status (state (pause init_controller)) = status (state init_controller)
   \<and> status (state init_controller) \<noteq> Paused
   \<and> status (state (resume init_controller)) = status (state init_controller)
   \<and> status (state (stop init_controller)) = Stopped
   \<and> status (state (home init_controller)) = Homing"
  using operator_commands_status [of init_controller]
  by (simp add: init_controller_def init_state_def)

subsection \<open>The calls of the spindle shim\<close>

text \<open>
  When it does not raise, \<open>apply\<close> makes two calls on the sink, the direction first and
  the voltage second. The voltage itself is a double in the program: its rounding, and what
  becomes of a speed that is NaN, are not within the numbers of this development, which
  states nothing about its value.
\<close>

lemma apply_spindle_order:
  "apply_spindle cfg rpm_in dir calls = Inr out \<Longrightarrow>
     \<exists>v. out = calls @ [SetDirection dir, SetVoltage v]"
  by (auto simp: apply_spindle_def Let_def split: if_splits)

subsection \<open>The spindle-token scan\<close>

lemma handle_spindle_tokens_state:
  "state (snd (handle_spindle_tokens cfg line c)) = spindle_tokens line (state c)"
  by (simp add: handle_spindle_tokens_def Let_def split: sum.split)

lemma spindle_tokens_dir:
  "spindle_dir (spindle_tokens line st) =
     (if py_in ''M3'' (upper line) then CW
      else if py_in ''M4'' (upper line) then CCW
      else if py_in ''M5'' (upper line) then OFF
      else spindle_dir st)"
  unfolding spindle_tokens_def Let_def
  by (simp split: option.split)

text \<open>
  Claim C10. The scan tests for substrings of the uppercased line: a line that contains
  \<open>M3\<close> anywhere leaves \<open>spindle_dir\<close> CW; \<open>M4\<close> counts only when there is no \<open>M3\<close>,
  and \<open>M5\<close> only when there is neither; otherwise the direction stays. In every case the
  spindle shim is then applied to the speed and direction the state now holds.
\<close>

theorem spindle_scan_substring:
  "spindle_dir (state (snd (handle_spindle_tokens cfg line c)))
     = (if py_in ''M3'' (upper line) then CW
        else if py_in ''M4'' (upper line) then CCW
        else if py_in ''M5'' (upper line) then OFF
        else spindle_dir (state c))
   \<and> handle_spindle_tokens cfg line c =
     (case apply_spindle cfg (spindle_rpm (state (snd (handle_spindle_tokens cfg line c))))
              (spindle_dir (state (snd (handle_spindle_tokens cfg line c)))) (sink_calls c) of
        Inl e \<Rightarrow> (Some e, c\<lparr>state := state (snd (handle_spindle_tokens cfg line c))\<rparr>)
      | Inr calls \<Rightarrow> (None, c\<lparr>state := state (snd (handle_spindle_tokens cfg line c)),
                               sink_calls := calls\<rparr>))"
proof -
  let ?st = "state (snd (handle_spindle_tokens cfg line c))"
  have d: "spindle_dir ?st =
     (if py_in ''M3'' (upper line) then CW
      else if py_in ''M4'' (upper line) then CCW
      else if py_in ''M5'' (upper line) then OFF
      else spindle_dir (state c))"
    by (simp only: handle_spindle_tokens_state spindle_tokens_dir)
  have shim: "handle_spindle_tokens cfg line c =
     (case apply_spindle cfg (spindle_rpm ?st) (spindle_dir ?st) (sink_calls c) of
        Inl e \<Rightarrow> (Some e, c\<lparr>state := ?st\<rparr>)
      | Inr calls \<Rightarrow> (None, c\<lparr>state := ?st, sink_calls := calls\<rparr>))"
    unfolding handle_spindle_tokens_state
    by (simp only: handle_spindle_tokens_def Let_def)
  from d shim show ?thesis
    by (intro conjI)
qed

theorem spindle_scan_substring_witness:
  "py_in ''M3'' (upper ''M30'')
   \<and> spindle_dir (state (snd (handle_spindle_tokens default_config ''M30'' init_controller))) = CW
   \<and> sink_calls (snd (handle_spindle_tokens default_config ''M30'' init_controller))
       = [SetDirection CW, SetVoltage 0]"
proof -
  have m: "py_in ''M3'' (upper ''M30'')"
    by (simp add: upper_def upper_char_def)
  from spindle_scan_substring [of default_config "''M30''" init_controller] m
  have dir: "spindle_dir (state (snd (handle_spindle_tokens default_config ''M30'' init_controller)))
               = CW"
    by simp
  have "spindle_tokens ''M30'' init_state = init_state\<lparr>spindle_dir := CW\<rparr>"
    by (simp add: spindle_tokens_def upper_def upper_char_def Let_def)
  then have calls:
    "sink_calls (snd (handle_spindle_tokens default_config ''M30'' init_controller))
       = [SetDirection CW, SetVoltage 0]"
    by (simp add: handle_spindle_tokens_def init_controller_def apply_spindle_def
          default_config_def init_state_def)
  from m dir calls show ?thesis
    by (intro conjI)
qed

subsection \<open>Malformed numbers in the parser\<close>

text \<open>
  Claim C1 says that a line with a malformed axis token is skipped and the preview still
  produced. On the file \<open>G1 Xabc\<close> the parser raises the ValueError of \<open>float\<close>: no
  preview is produced.
\<close>

theorem parse_file_malformed_axis:
  "parse_file ''G1 Xabc'' = Inl ValueError"
  by code_simp

subsection \<open>The move tracker and the preview\<close>

text \<open>
  Claim C2 says that a job run in simulation ends at the end of the last segment of the
  preview. The executor hands the tracker the whole trimmed line, comment included, while
  the parser strips the comment first: on the file \<open>G0 X1 ; X2\<close> the preview ends at
  \<open>[1, 0, 0]\<close> and the job at \<open>[2, 0, 0]\<close>.
\<close>

theorem tracker_reads_comment:
  "parse_file ''G0 X1 ; X2''
     = Inr \<lparr>segments = [\<lparr>seg_start = [0, 0, 0], seg_end = [1, 0, 0], rapid = True\<rparr>],
            bbox_min = [0, 0, 0], bbox_max = [1, 0, 0]\<rparr>
   \<and> finished (start_and_run default_config gcode_dir (one_file ''job.nc'' ''G0 X1 ; X2'')
        (\<lambda>i. None) \<lparr>filename = ''job.nc'', tool_id = None\<rparr> init_controller)
   \<and> machine_pos (state (final (start_and_run default_config gcode_dir
        (one_file ''job.nc'' ''G0 X1 ; X2'') (\<lambda>i. None)
        \<lparr>filename = ''job.nc'', tool_id = None\<rparr> init_controller))) = [2, 0, 0]"
  by code_simp

text \<open>
  On a file whose lines hold no comment character the tracker does follow the parser: a
  job started outside Running and Paused, in simulation, with a nonzero \<open>max_rpm\<close>,
  finishes, and when the preview has a segment the job ends at the end of the last one.
\<close>

lemma split_on_absent: "sep \<notin> set s \<Longrightarrow> split_on sep s = [s]"
  by (induction s) auto

lemma strip_comment_plain: "no_comment raw \<Longrightarrow> strip_comment raw = py_strip raw"
  by (simp add: strip_comment_def no_comment_def split_on_absent)

lemma parse_lines_step:
  assumes "strip_comment raw \<noteq> []"
      and "parse_lines (raw # rest) m segs bb = Inr R"
  shows "\<exists>p t segs1 bb1. consume (strip_comment raw) m = (Inr p, t) \<and> position t = p
           \<and> parse_lines rest t segs1 bb1 = Inr R"
proof (cases "is_move (upper (strip_comment raw))")
  case True
  let ?code = "upper (strip_comment raw)"
  let ?m2 = "set_mode ?code m"
  from assms True obtain np where
    mt: "move_tokens ?m2 (py_split ?code) (position ?m2) = Inr np"
    by (cases "move_tokens ?m2 (py_split ?code) (position ?m2)")
       (auto simp: Let_def extract_move_def)
  with assms True show ?thesis
    by (auto simp: Let_def extract_move_def consume_def)
next
  case False
  with assms show ?thesis
    by (auto simp: Let_def consume_def)
qed

lemma parse_lines_end:
  "parse_lines ls m segs bb = Inr (m', segs', bb') \<Longrightarrow>
     \<exists>new. segs' = segs @ new
       \<and> (if new = [] then position m' = position m else seg_end (last new) = position m')"
proof (induction ls arbitrary: m segs bb)
  case Nil
  then show ?case by simp
next
  case (Cons raw rest)
  show ?case
  proof (cases "strip_comment raw = []")
    case True
    with Cons.prems have "parse_lines rest m segs bb = Inr (m', segs', bb')" by simp
    from Cons.IH [OF this] show ?thesis .
  next
    case False
    let ?code = "upper (strip_comment raw)"
    let ?m2 = "set_mode ?code m"
    show ?thesis
    proof (cases "is_move ?code")
      case move: True
      from Cons.prems False move obtain d np where
        ex: "extract_move ?m2 ?code = Inr (d, np)"
        by (cases "extract_move ?m2 ?code") (auto simp: Let_def)
      let ?seg = "\<lparr>seg_start = position ?m2, seg_end = np, rapid = startswith ?code ''G0''\<rparr>"
      from ex Cons.prems False move have
        "parse_lines rest (?m2\<lparr>position := np\<rparr>) (segs @ [?seg])
           (Some (extend_bbox bb (position ?m2) np)) = Inr (m', segs', bb')"
        by (simp add: Let_def)
      from Cons.IH [OF this] obtain new where
        n: "segs' = (segs @ [?seg]) @ new"
        and e: "if new = [] then position m' = np else seg_end (last new) = position m'"
        by auto
      have a: "segs' = segs @ (?seg # new)" using n by simp
      have b: "seg_end (last (?seg # new)) = position m'"
        using e by (cases "new = []") simp_all
      show ?thesis
        by (rule exI [of _ "?seg # new"]) (simp only: a b list.distinct if_False simp_thms)
    next
      case nomove: False
      with Cons.prems False have "parse_lines rest ?m2 segs bb = Inr (m', segs', bb')"
        by (simp add: Let_def)
      from Cons.IH [OF this] show ?thesis by (simp only: set_mode_position)
    qed
  qed
qed

lemma parse_lines_blank:
  "\<forall>raw \<in> set ls. strip_comment raw = [] \<Longrightarrow> parse_lines ls m segs bb = Inr (m, segs, bb)"
  by (induction ls) auto

lemma run_lines_blank:
  "\<forall>raw \<in> set ls. py_strip raw = [] \<Longrightarrow> \<not> stop_flag c \<Longrightarrow> status (state c) \<noteq> Paused
     \<Longrightarrow> run_lines cfg idx ls c = Finished c"
  by (induction ls arbitrary: idx) auto

lemma run_lines_tracks:
  assumes "\<forall>raw \<in> set ls. no_comment raw"
      and "\<not> connected c" and "\<not> stop_flag c" and "status (state c) \<noteq> Paused"
      and "spindle_max_rpm cfg \<noteq> 0"
      and "parse_lines ls (move_tracker c) segs bb = Inr R"
  shows "\<exists>c'. run_lines cfg idx ls c = Finished c' \<and> move_tracker c' = fst R
           \<and> \<not> stop_flag c'
           \<and> machine_pos (state c')
               = (if \<forall>raw \<in> set ls. py_strip raw = [] then machine_pos (state c)
                  else position (fst R))"
  using assms
proof (induction ls arbitrary: c idx segs bb)
  case Nil
  then show ?case by auto
next
  case (Cons raw rest)
  have sc: "strip_comment raw = py_strip raw"
    using Cons.prems(1) by (simp add: strip_comment_plain)
  have rest: "\<forall>raw \<in> set rest. no_comment raw"
    using Cons.prems(1) by simp
  show ?case
  proof (cases "py_strip raw = []")
    case True
    with Cons.prems(6) sc have "parse_lines rest (move_tracker c) segs bb = Inr R" by simp
    from Cons.IH [OF rest Cons.prems(2-5) this, of "Suc idx"] True Cons.prems(3,4)
    show ?thesis by (simp add: Let_def)
  next
    case False
    from parse_lines_step [of raw rest "move_tracker c" segs bb R] False sc Cons.prems(6)
    obtain p t segs1 bb1 where
      cs: "consume (py_strip raw) (move_tracker c) = (Inr p, t)" and pt: "position t = p"
      and pr: "parse_lines rest t segs1 bb1 = Inr R"
      by auto
    obtain r c1 where h: "handle_spindle_tokens cfg (py_strip raw) c = (r, c1)"
      by (cases "handle_spindle_tokens cfg (py_strip raw) c")
    note keep = handle_spindle_tokens_keeps [OF h]
    have r: "r = None"
      using handle_spindle_tokens_ok [OF Cons.prems(5), of "py_strip raw" c] h by simp
    let ?c2 = "c1\<lparr>move_tracker := t,
                  state := (state c1)\<lparr>machine_pos := p, current_line := int idx\<rparr>\<rparr>"
    have step: "run_lines cfg idx (raw # rest) c = run_lines cfg (Suc idx) rest ?c2"
      using False h r cs keep Cons.prems(2-4) by (simp add: Let_def)
    have pre: "\<not> connected ?c2" "\<not> stop_flag ?c2" "status (state ?c2) \<noteq> Paused"
      using keep Cons.prems(2-4) by simp_all
    have pr2: "parse_lines rest (move_tracker ?c2) segs1 bb1 = Inr R"
      using pr by simp
    from Cons.IH [OF rest pre Cons.prems(5) pr2, of "Suc idx"] obtain c' where
      run: "run_lines cfg (Suc idx) rest ?c2 = Finished c'" and tr: "move_tracker c' = fst R"
      and sf: "\<not> stop_flag c'"
      and mp: "machine_pos (state c')
                 = (if \<forall>raw \<in> set rest. py_strip raw = [] then machine_pos (state ?c2)
                    else position (fst R))"
      by blast
    have "machine_pos (state c') = position (fst R)"
    proof (cases "\<forall>raw \<in> set rest. py_strip raw = []")
      case True
      then have "\<forall>raw \<in> set rest. strip_comment raw = []"
        using rest by (simp add: strip_comment_plain)
      from parse_lines_blank [OF this, of t segs1 bb1] pr have "fst R = t" by auto
      with mp True pt show ?thesis by simp
    next
      case False
      with mp show ?thesis by simp
    qed
    with step run tr sf False show ?thesis by simp
  qed
qed

lemma start_job_launch:
  assumes "fs (path_for root_dir (filename request)) = Some content"
      and "status (state c) \<notin> {Running, Paused}"
      and "spindle_max_rpm cfg \<noteq> 0"
  shows "\<exists>c1. start_job cfg root_dir fs get_tool request c = (None, c1)
           \<and> job_thread c1 = Some (splitlines (read_text content))
           \<and> move_tracker c1 = reset \<and> \<not> stop_flag c1
           \<and> status (state c1) = Running \<and> connected c1 = connected c"
  using assms
  by (auto simp: start_job_def set_tool_def apply_spindle_def Let_def split: option.splits)

lemma final_run_job_machine_pos:
  "run_lines cfg 1 lines c = Finished c' \<Longrightarrow>
     finished (run_job cfg lines c)
     \<and> machine_pos (state (final (run_job cfg lines c))) = machine_pos (state c')"
  by (simp add: run_job_def)

lemma job_ends_at_preview:
  assumes found: "fs (path_for root_dir (filename request)) = Some content"
      and idle: "status (state c) \<notin> {Running, Paused}"
      and sim: "\<not> connected c"
      and cfg: "spindle_max_rpm cfg \<noteq> 0"
      and plain: "\<forall>raw \<in> set (splitlines (read_text content)). no_comment raw"
      and pv: "parse_file content = Inr pv"
      and motion: "segments pv \<noteq> []"
  shows "finished (start_and_run cfg root_dir fs get_tool request c)
         \<and> machine_pos (state (final (start_and_run cfg root_dir fs get_tool request c)))
             = seg_end (last (segments pv))"
proof -
  let ?lines = "splitlines (read_text content)"
  from pv obtain m' segs' bb' where
    pl: "parse_lines ?lines reset [] None = Inr (m', segs', bb')" and sg: "segments pv = segs'"
    by (auto simp: parse_file_def split: sum.splits option.splits prod.splits)
  from parse_lines_end [OF pl] motion sg have e: "seg_end (last segs') = position m'"
    by auto
  have nonblank: "\<not> (\<forall>raw \<in> set ?lines. py_strip raw = [])"
  proof
    assume "\<forall>raw \<in> set ?lines. py_strip raw = []"
    with plain have "\<forall>raw \<in> set ?lines. strip_comment raw = []"
      by (simp add: strip_comment_plain)
    from parse_lines_blank [OF this, of reset "[]" None] pl motion sg show False
      by simp
  qed
  from start_job_launch [where fs = fs and get_tool = get_tool, OF found idle cfg] obtain c1 where
    sj: "start_job cfg root_dir fs get_tool request c = (None, c1)"
    and th: "job_thread c1 = Some ?lines" and tr: "move_tracker c1 = reset"
    and sf: "\<not> stop_flag c1" and st: "status (state c1) = Running"
    and cn: "connected c1 = connected c"
    by blast
  have pl1: "parse_lines ?lines (move_tracker c1) [] None = Inr (m', segs', bb')"
    using pl tr by simp
  have c1: "\<not> connected c1" "status (state c1) \<noteq> Paused"
    using cn sim st by simp_all
  from run_lines_tracks [OF plain c1(1) sf c1(2) cfg pl1, of 1] nonblank obtain c' where
    run: "run_lines cfg 1 ?lines c1 = Finished c'" and mp: "machine_pos (state c') = position m'"
    by auto
  from final_run_job_machine_pos [OF run] sj th mp e sg show ?thesis
    by (simp add: start_and_run_def)
qed

subsection \<open>The line counter of a job\<close>

text \<open>
  Claim C8 says that \<open>current_line\<close> never exceeds \<open>total_lines\<close>. The total is counted
  by iterating over the file, which ends a line at LF only, and the executor numbers the
  lines of \<open>splitlines\<close>, which also ends a line at a form feed: on the file
  \<open>G0 X1 <FF> G0 X2 <LF>\<close> the job ends with \<open>current_line = 2\<close> and
  \<open>total_lines = 1\<close>.
\<close>

theorem current_line_exceeds_total:
  "finished (start_and_run default_config gcode_dir
        (one_file ''job.nc'' (''G0 X1'' @ [CHR 0x0C] @ ''G0 X2'' @ [CHR 0x0A]))
        (\<lambda>i. None) \<lparr>filename = ''job.nc'', tool_id = None\<rparr> init_controller)
   \<and> current_line (state (final (start_and_run default_config gcode_dir
        (one_file ''job.nc'' (''G0 X1'' @ [CHR 0x0C] @ ''G0 X2'' @ [CHR 0x0A]))
        (\<lambda>i. None) \<lparr>filename = ''job.nc'', tool_id = None\<rparr> init_controller))) = 2
   \<and> total_lines (state (final (start_and_run default_config gcode_dir
        (one_file ''job.nc'' (''G0 X1'' @ [CHR 0x0C] @ ''G0 X2'' @ [CHR 0x0A]))
        (\<lambda>i. None) \<lparr>filename = ''job.nc'', tool_id = None\<rparr> init_controller))) = 1"
  by code_simp

text \<open>
  The rest of the claim holds. \<open>start_job\<close> sets \<open>current_line\<close> to 0; the job
  thread only raises it, and never beyond the number of lines it was given; and on a file
  of ASCII text with no VT, FF, FS, GS or RS that number is \<open>total_lines\<close>.
\<close>

lemma universal_newlines_set:
  "set (universal_newlines s) \<subseteq> insert (CHR 0x0A) (set s - {CHR 0x0D})"
  by (induction s rule: universal_newlines.induct) auto

lemma splitlines_from_Cons:
  "c \<noteq> CHR 0x0D \<Longrightarrow>
     splitlines_from cur (c # cs) =
       (if is_linebreak c then cur # splitlines_from [] cs else splitlines_from (cur @ [c]) cs)"
  by (cases cs) auto

lemma split_and_file_lines:
  assumes "\<forall>c \<in> set t. is_linebreak c \<longrightarrow> c = CHR 0x0A"
      and "(cur = []) = (cur' = [])"
  shows "length (splitlines_from cur t) = length (file_lines_from cur' t)"
  using assms
proof (induction t arbitrary: cur cur')
  case Nil
  then show ?case by simp
next
  case (Cons c cs)
  have lf: "is_linebreak c \<longleftrightarrow> c = CHR 0x0A"
    using Cons.prems(1) by (auto simp: is_linebreak_def)
  have cr: "c \<noteq> CHR 0x0D"
    using Cons.prems(1) by (auto simp: is_linebreak_def)
  have rest: "\<forall>c \<in> set cs. is_linebreak c \<longrightarrow> c = CHR 0x0A"
    using Cons.prems(1) by simp
  show ?case
  proof (cases "c = CHR 0x0A")
    case True
    with Cons.IH [OF rest, of "[]" "[]"] lf cr show ?thesis
      by (simp add: splitlines_from_Cons)
  next
    case False
    with Cons.IH [OF rest, of "cur @ [c]" "cur' @ [c]"] lf cr show ?thesis
      by (simp add: splitlines_from_Cons)
  qed
qed

lemma plain_line_counts_agree:
  assumes "plain_lines content"
  shows "int (length (splitlines (read_text content))) = line_count content"
proof -
  have "\<forall>c \<in> set (universal_newlines content). is_linebreak c \<longrightarrow> c = CHR 0x0A"
    using assms universal_newlines_set [of content]
    by (auto simp: plain_lines_def is_linebreak_def)
  from split_and_file_lines [OF this, of "[]" "[]"] show ?thesis
    by (simp add: splitlines_def read_text_def line_count_def)
qed

lemma run_lines_current_line:
  assumes "current_line (state c) < int idx"
  shows "current_line (state c) \<le> current_line (state (final (run_lines cfg idx lines c)))
         \<and> current_line (state (final (run_lines cfg idx lines c))) < int idx + int (length lines)
         \<and> total_lines (state (final (run_lines cfg idx lines c))) = total_lines (state c)"
  using assms
proof (induction lines arbitrary: idx c)
  case Nil
  then show ?case by simp
next
  case (Cons raw rest)
  show ?case
  proof (cases "stop_flag c \<or> status (state c) = Paused")
    case True
    with Cons.prems show ?thesis by auto
  next
    case go: False
    show ?thesis
    proof (cases "py_strip raw = []")
      case True
      from Cons.prems have "current_line (state c) < int (Suc idx)" by simp
      from Cons.IH [OF this] go True show ?thesis by (simp add: Let_def)
    next
      case line: False
      obtain r c1 where h: "handle_spindle_tokens cfg (py_strip raw) c = (r, c1)"
        by (cases "handle_spindle_tokens cfg (py_strip raw) c")
      note keep = handle_spindle_tokens_keeps [OF h]
      show ?thesis
      proof (cases r)
        case (Some e)
        with go line h keep Cons.prems show ?thesis by (simp add: Let_def)
      next
        case None
        show ?thesis
        proof (cases "connected c1")
          case True
          let ?c2 = "c1\<lparr>tx_queue := tx_queue c1 @ [py_strip (py_strip raw) @ [CHR 0x0A]],
                       state := (state c1)\<lparr>current_line := int idx\<rparr>\<rparr>"
          have "current_line (state ?c2) < int (Suc idx)" by simp
          from Cons.IH [OF this] go line h None True keep Cons.prems show ?thesis
            by (simp add: Let_def)
        next
          case False
          obtain res t where cs: "consume (py_strip raw) (move_tracker c1) = (res, t)"
            by (cases "consume (py_strip raw) (move_tracker c1)")
          show ?thesis
          proof (cases res)
            case (Inl e)
            with go line h None False cs keep Cons.prems show ?thesis by (simp add: Let_def)
          next
            case (Inr new_pos)
            let ?c2 = "c1\<lparr>move_tracker := t,
                          state := (state c1)\<lparr>machine_pos := new_pos, current_line := int idx\<rparr>\<rparr>"
            have "current_line (state ?c2) < int (Suc idx)" by simp
            from Cons.IH [OF this] go line h None False cs Inr keep Cons.prems
            show ?thesis by (simp add: Let_def)
          qed
        qed
      qed
    qed
  qed
qed

lemma start_job_counters:
  assumes "fs (path_for root_dir (filename request)) = Some content"
      and "status (state c) \<notin> {Running, Paused}"
      and "start_job cfg root_dir fs get_tool request c = (r, c1)"
  shows "current_line (state c1) = 0" and "total_lines (state c1) = line_count content"
    and "r = None \<Longrightarrow> job_thread c1 = Some (splitlines (read_text content))"
  using assms
  by (auto simp: start_job_def set_tool_def Let_def split: option.splits sum.splits if_splits)

lemma final_run_job_counters:
  "current_line (state (final (run_job cfg lines c)))
     = current_line (state (final (run_lines cfg 1 lines c)))
   \<and> total_lines (state (final (run_job cfg lines c)))
     = total_lines (state (final (run_lines cfg 1 lines c)))"
  by (cases "run_lines cfg 1 lines c") (simp_all add: run_job_def)

lemma line_count_nonneg: "0 \<le> line_count content"
  by (simp add: line_count_def)

lemma job_line_counter_plain:
  assumes found: "fs (path_for root_dir (filename request)) = Some content"
      and idle: "status (state c) \<notin> {Running, Paused}"
      and plain: "plain_lines content"
  shows "0 \<le> current_line (state (final (start_and_run cfg root_dir fs get_tool request c)))
         \<and> current_line (state (final (start_and_run cfg root_dir fs get_tool request c)))
             \<le> total_lines (state (final (start_and_run cfg root_dir fs get_tool request c)))"
proof -
  obtain r c1 where sj: "start_job cfg root_dir fs get_tool request c = (r, c1)"
    by (cases "start_job cfg root_dir fs get_tool request c")
  note cnt = start_job_counters [OF found idle sj]
  show ?thesis
  proof (cases r)
    case (Some e)
    with sj cnt line_count_nonneg [of content] show ?thesis
      by (simp add: start_and_run_def)
  next
    case None
    let ?lines = "splitlines (read_text content)"
    from cnt(3) [OF None] have th: "job_thread c1 = Some ?lines" .
    have "current_line (state c1) < int 1" using cnt(1) by simp
    from run_lines_current_line [OF this, of cfg ?lines]
    have "0 \<le> current_line (state (final (run_lines cfg 1 ?lines c1)))"
      and "current_line (state (final (run_lines cfg 1 ?lines c1))) \<le> int (length ?lines)"
      and "total_lines (state (final (run_lines cfg 1 ?lines c1))) = line_count content"
      using cnt(1,2) by simp_all
    with plain_line_counts_agree [OF plain] final_run_job_counters [of cfg ?lines c1]
      sj None th show ?thesis
      by (simp add: start_and_run_def)
  qed
qed

subsection \<open>File names and the content directory\<close>

text \<open>
  Claim C9 says that every file name is resolved to its basename under the content
  directory. Only \<open>save_file\<close> takes the basename: \<open>path_for\<close> (preview, job start) and
  \<open>delete\<close> join the name as it is, and the name \<open>../tools.db\<close> leads them to a file
  outside the content directory.
\<close>

theorem path_for_escapes:
  "path_for gcode_dir ''../tools.db''
     = Path True [''srv'', ''cnc'', ''data'', ''gcode'', ''..'', ''tools.db'']
   \<and> join_path gcode_dir (basename ''../tools.db'')
     = Path True [''srv'', ''cnc'', ''data'', ''gcode'', ''tools.db'']
   \<and> \<not> inside gcode_dir (path_for gcode_dir ''../tools.db'')
   \<and> inside gcode_dir (fst (save_file gcode_dir ''../tools.db'' ''G0 X1'' Map.empty))
   \<and> fst (delete gcode_dir ''../tools.db''
        (Map.empty(Path True [''srv'', ''cnc'', ''data'', ''gcode'', ''..'', ''tools.db'']
           \<mapsto> ''db''))) = True
   \<and> path_for gcode_dir ''/etc/passwd'' = Path True [''etc'', ''passwd'']"
  by (simp add: path_for_def join_path_def path_of_def gcode_dir_def startswith_def
        basename_def inside_def save_file_def delete_def Let_def)

subsection \<open>The number of segments of a preview\<close>

text \<open>
  Claim C6, as stated, fails: the parser tests the first two characters of the line, not
  its first token, and the line \<open>G10 L20 P1 X0 Y0 Z0\<close>, whose first token is \<open>G10\<close>,
  gives a segment.
\<close>

theorem prefix_not_token:
  "parse_file ''G10 L20 P1 X0 Y0 Z0''
     = Inr \<lparr>segments = [\<lparr>seg_start = [0, 0, 0], seg_end = [0, 0, 0], rapid = False\<rparr>],
            bbox_min = [0, 0, 0], bbox_max = [0, 0, 0]\<rparr>
   \<and> filter first_token_G0_G1 (splitlines (read_text ''G10 L20 P1 X0 Y0 Z0'')) = []"
  by code_simp

lemma parse_lines_count:
  "parse_lines ls m segs bb = Inr (m', segs', bb') \<Longrightarrow>
     length segs' = length segs + length (filter emits_segment ls)"
proof (induction ls arbitrary: m segs bb)
  case Nil
  then show ?case by simp
next
  case (Cons raw rest)
  show ?case
  proof (cases "strip_comment raw = []")
    case True
    with Cons.prems have "parse_lines rest m segs bb = Inr (m', segs', bb')"
      by simp
    from Cons.IH [OF this] True show ?thesis
      by (simp add: emits_segment_def upper_def)
  next
    case False
    let ?code = "upper (strip_comment raw)"
    let ?m2 = "set_mode ?code m"
    show ?thesis
    proof (cases "is_move ?code")
      case move: True
      from Cons.prems False move obtain d np where
        ex: "extract_move ?m2 ?code = Inr (d, np)"
        by (cases "extract_move ?m2 ?code") (auto simp: Let_def)
      with Cons.prems False move have
        "parse_lines rest (?m2\<lparr>position := np\<rparr>)
           (segs @ [\<lparr>seg_start = position ?m2, seg_end = np, rapid = startswith ?code ''G0''\<rparr>])
           (Some (extend_bbox bb (position ?m2) np)) = Inr (m', segs', bb')"
        by (simp add: Let_def)
      from Cons.IH [OF this] move show ?thesis
        by (simp add: emits_segment_def)
    next
      case nomove: False
      with Cons.prems False have "parse_lines rest ?m2 segs bb = Inr (m', segs', bb')"
        by (simp add: Let_def)
      from Cons.IH [OF this] nomove show ?thesis
        by (simp add: emits_segment_def)
    qed
  qed
qed

text \<open>
  Claim C6, amended. When \<open>parse_file\<close> returns a preview, the number of its segments is
  the number of lines whose residue, after comment stripping, trimming and uppercasing,
  begins with the characters \<open>G0\<close> or \<open>G1\<close>.
\<close>

theorem parse_file_segment_count:
  assumes "parse_file content = Inr pv"
  shows "length (segments pv) = length (filter emits_segment (splitlines (read_text content)))"
proof -
  from assms obtain m segs bb where
    pl: "parse_lines (splitlines (read_text content)) reset [] None = Inr (m, segs, bb)"
    and pv: "segments pv = segs"
    by (auto simp: parse_file_def split: sum.splits option.splits prod.splits)
  from parse_lines_count [OF pl] pv show ?thesis by simp
qed

theorem parse_file_segment_count_witness:
  "parse_file ''G90 ; absolute\<newline>g1 x1.5 Y-2\<newline>M3 S12000\<newline>(G1 X3)\<newline>G10 L20 P1''
     = Inr \<lparr>segments = [\<lparr>seg_start = [0, 0, 0], seg_end = [3 / 2, - 2, 0], rapid = False\<rparr>,
                         \<lparr>seg_start = [3 / 2, - 2, 0], seg_end = [3 / 2, - 2, 0], rapid = False\<rparr>],
            bbox_min = [0, - 2, 0], bbox_max = [3 / 2, 0, 0]\<rparr>
   \<and> length (filter emits_segment
        (splitlines (read_text ''G90 ; absolute\<newline>g1 x1.5 Y-2\<newline>M3 S12000\<newline>(G1 X3)\<newline>G10 L20 P1''))) = 2"
proof -
  have pf: "parse_file ''G90 ; absolute\<newline>g1 x1.5 Y-2\<newline>M3 S12000\<newline>(G1 X3)\<newline>G10 L20 P1''
     = Inr \<lparr>segments = [\<lparr>seg_start = [0, 0, 0], seg_end = [3 / 2, - 2, 0], rapid = False\<rparr>,
                         \<lparr>seg_start = [3 / 2, - 2, 0], seg_end = [3 / 2, - 2, 0], rapid = False\<rparr>],
            bbox_min = [0, - 2, 0], bbox_max = [3 / 2, 0, 0]\<rparr>"
    by code_simp
  from parse_file_segment_count [OF pf] pf show ?thesis by simp
qed

subsection \<open>Status frames\<close>

text \<open>
  Claim C4, as stated, fails: the payload of a frame always holds a status, Idle unless a
  state word sets another, and the frame \<open><Jog|MPos:1.000,2.000,3.000>\<close> turns the
  status Running into Idle.
\<close>

theorem unknown_word_sets_idle:
  "rx_line ''<Jog|MPos:1.000,2.000,3.000>'' (init_state\<lparr>status := Running\<rparr>)
     = (None, init_state\<lparr>status := Idle, machine_pos := [1, 2, 3]\<rparr>)"
  by code_simp

lemma and_then_Inr: "and_then r f = Inr v \<longleftrightarrow> (\<exists>a. r = Inr a \<and> f a = Inr v)"
  by (cases r) (simp_all add: and_then_def)

lemma token_mpos_fields:
  assumes "token_mpos tok p = Inr p'"
  shows "pl_status p' = pl_status p" and "pl_work_offset p' = pl_work_offset p"
    and "pl_feed_rate p' = pl_feed_rate p" and "pl_spindle_rpm p' = pl_spindle_rpm p"
    and "if startswith tok ''MPos:'' then pl_machine_pos p' \<noteq> None
         else pl_machine_pos p' = pl_machine_pos p"
  using assms by (auto simp: token_mpos_def and_then_Inr split: if_splits)

lemma token_wco_fields:
  assumes "token_wco tok p = Inr p'"
  shows "pl_status p' = pl_status p" and "pl_machine_pos p' = pl_machine_pos p"
    and "pl_feed_rate p' = pl_feed_rate p" and "pl_spindle_rpm p' = pl_spindle_rpm p"
    and "if startswith tok ''WCO:'' then pl_work_offset p' \<noteq> None
         else pl_work_offset p' = pl_work_offset p"
  using assms by (auto simp: token_wco_def and_then_Inr split: if_splits)

lemma token_fs_fields:
  assumes "token_fs tok p = Inr p'"
  shows "pl_status p' = pl_status p" and "pl_machine_pos p' = pl_machine_pos p"
    and "pl_work_offset p' = pl_work_offset p"
    and "if startswith tok ''FS:'' then pl_feed_rate p' \<noteq> None \<and> pl_spindle_rpm p' \<noteq> None
         else pl_feed_rate p' = pl_feed_rate p \<and> pl_spindle_rpm p' = pl_spindle_rpm p"
  using assms by (auto simp: token_fs_def and_then_Inr split: if_splits option.splits)

lemma token_state_fields:
  shows "pl_status (token_state tok p)
           = (if tok \<in> set state_words then Some (word_status tok) else pl_status p)"
    and "pl_machine_pos (token_state tok p) = pl_machine_pos p"
    and "pl_work_offset (token_state tok p) = pl_work_offset p"
    and "pl_feed_rate (token_state tok p) = pl_feed_rate p"
    and "pl_spindle_rpm (token_state tok p) = pl_spindle_rpm p"
  by (simp_all add: token_state_def)

lemma parse_token_stages:
  assumes "parse_token tok p = Inr p'"
  obtains p2 p3 where "token_mpos tok (token_state tok p) = Inr p2"
    and "token_wco tok p2 = Inr p3" and "token_fs tok p3 = Inr p'"
  using assms by (auto simp: parse_token_def and_then_Inr)

lemma parse_token_status:
  assumes "parse_token tok p = Inr p'"
  shows "pl_status p' = (if tok \<in> set state_words then Some (word_status tok) else pl_status p)"
proof -
  from assms obtain p2 p3 where m: "token_mpos tok (token_state tok p) = Inr p2"
    and w: "token_wco tok p2 = Inr p3" and f: "token_fs tok p3 = Inr p'"
    by (rule parse_token_stages)
  show ?thesis
    by (simp only: token_fs_fields(1) [OF f] token_wco_fields(1) [OF w]
          token_mpos_fields(1) [OF m] token_state_fields(1))
qed

lemma parse_token_machine_pos:
  assumes "parse_token tok p = Inr p'"
  shows "if startswith tok ''MPos:'' then pl_machine_pos p' \<noteq> None
         else pl_machine_pos p' = pl_machine_pos p"
proof -
  from assms obtain p2 p3 where m: "token_mpos tok (token_state tok p) = Inr p2"
    and w: "token_wco tok p2 = Inr p3" and f: "token_fs tok p3 = Inr p'"
    by (rule parse_token_stages)
  from token_mpos_fields(5) [OF m] show ?thesis
    by (simp only: token_fs_fields(2) [OF f] token_wco_fields(2) [OF w] token_state_fields(2))
qed

lemma parse_token_work_offset:
  assumes "parse_token tok p = Inr p'"
  shows "if startswith tok ''WCO:'' then pl_work_offset p' \<noteq> None
         else pl_work_offset p' = pl_work_offset p"
proof -
  from assms obtain p2 p3 where m: "token_mpos tok (token_state tok p) = Inr p2"
    and w: "token_wco tok p2 = Inr p3" and f: "token_fs tok p3 = Inr p'"
    by (rule parse_token_stages)
  from token_wco_fields(5) [OF w] show ?thesis
    by (simp only: token_fs_fields(3) [OF f] token_mpos_fields(2) [OF m] token_state_fields(3))
qed

lemma parse_token_feed:
  assumes "parse_token tok p = Inr p'"
  shows "if startswith tok ''FS:'' then pl_feed_rate p' \<noteq> None \<and> pl_spindle_rpm p' \<noteq> None
         else pl_feed_rate p' = pl_feed_rate p \<and> pl_spindle_rpm p' = pl_spindle_rpm p"
proof -
  from assms obtain p2 p3 where m: "token_mpos tok (token_state tok p) = Inr p2"
    and w: "token_wco tok p2 = Inr p3" and f: "token_fs tok p3 = Inr p'"
    by (rule parse_token_stages)
  from token_fs_fields(4) [OF f] show ?thesis
    by (simp only: token_wco_fields(3,4) [OF w] token_mpos_fields(3,4) [OF m]
          token_state_fields(4,5))
qed

lemma parse_tokens_status:
  "parse_tokens toks p = Inr p' \<Longrightarrow>
     pl_status p' = (case filter (\<lambda>t. t \<in> set state_words) toks of
                      [] \<Rightarrow> pl_status p
                    | w # ws \<Rightarrow> Some (word_status (last (w # ws))))"
proof (induction toks arbitrary: p)
  case Nil
  then show ?case by simp
next
  case (Cons tok rest)
  from Cons.prems obtain p1 where
    t: "parse_token tok p = Inr p1" and r: "parse_tokens rest p1 = Inr p'"
    by (auto simp: and_then_Inr)
  from Cons.IH [OF r] parse_token_status [OF t] show ?case
    by (auto split: list.splits)
qed

lemma parse_tokens_machine_pos:
  "parse_tokens toks p = Inr p' \<Longrightarrow>
     (if has_field ''MPos:'' toks then pl_machine_pos p' \<noteq> None
      else pl_machine_pos p' = pl_machine_pos p)"
proof (induction toks arbitrary: p)
  case Nil
  then show ?case by (simp add: has_field_def)
next
  case (Cons tok rest)
  from Cons.prems obtain p1 where
    t: "parse_token tok p = Inr p1" and r: "parse_tokens rest p1 = Inr p'"
    by (auto simp: and_then_Inr)
  from Cons.IH [OF r] parse_token_machine_pos [OF t] show ?case
    by (auto simp: has_field_def split: if_splits)
qed

lemma parse_tokens_work_offset:
  "parse_tokens toks p = Inr p' \<Longrightarrow>
     (if has_field ''WCO:'' toks then pl_work_offset p' \<noteq> None
      else pl_work_offset p' = pl_work_offset p)"
proof (induction toks arbitrary: p)
  case Nil
  then show ?case by (simp add: has_field_def)
next
  case (Cons tok rest)
  from Cons.prems obtain p1 where
    t: "parse_token tok p = Inr p1" and r: "parse_tokens rest p1 = Inr p'"
    by (auto simp: and_then_Inr)
  from Cons.IH [OF r] parse_token_work_offset [OF t] show ?case
    by (auto simp: has_field_def split: if_splits)
qed

lemma parse_tokens_feed:
  "parse_tokens toks p = Inr p' \<Longrightarrow>
     (if has_field ''FS:'' toks then pl_feed_rate p' \<noteq> None \<and> pl_spindle_rpm p' \<noteq> None
      else pl_feed_rate p' = pl_feed_rate p \<and> pl_spindle_rpm p' = pl_spindle_rpm p)"
proof (induction toks arbitrary: p)
  case Nil
  then show ?case by (simp add: has_field_def)
next
  case (Cons tok rest)
  from Cons.prems obtain p1 where
    t: "parse_token tok p = Inr p1" and r: "parse_tokens rest p1 = Inr p'"
    by (auto simp: and_then_Inr)
  from Cons.IH [OF r] parse_token_feed [OF t] show ?case
    by (auto simp: has_field_def split: if_splits)
qed

lemma ingest_status_fields:
  assumes "ingest_status p st = (None, st')"
  shows "status st' = (case pl_status p of None \<Rightarrow> status st | Some v \<Rightarrow> v)"
    and "machine_pos st' = (case pl_machine_pos p of None \<Rightarrow> machine_pos st | Some v \<Rightarrow> v)"
    and "feed_rate st' = (case pl_feed_rate p of None \<Rightarrow> feed_rate st | Some v \<Rightarrow> v)"
    and "spindle_rpm st' = (case pl_spindle_rpm p of None \<Rightarrow> spindle_rpm st | Some v \<Rightarrow> v)"
    and "pl_work_offset p = None \<Longrightarrow> work_offset st' = work_offset st"
    and "spindle_dir st' = spindle_dir st" and "tool st' = tool st"
    and "current_line st' = current_line st" and "total_lines st' = total_lines st"
    and "job_file st' = job_file st"
  using assms
  by (auto simp: ingest_status_def Let_def split: option.splits list.splits)

text \<open>
  Claim C4, amended. For a frame that is parsed and ingested without an error: the status
  becomes that of the frame's last state word, and Idle when it has none; the position,
  the work offset, and the feed rate and spindle speed are in the payload exactly when a
  field \<open>MPos:\<close>, \<open>WCO:\<close>, \<open>FS:\<close> is in the frame, and are unchanged in the state
  otherwise; no other field of the state changes.
\<close>

theorem status_frame_update:
  assumes "parse_status line = Inr p" and "ingest_status p st = (None, st')"
  shows "status st' = state_word_of (frame_fields line)
         \<and> (if has_field ''MPos:'' (frame_fields line) then pl_machine_pos p = Some (machine_pos st')
             else pl_machine_pos p = None \<and> machine_pos st' = machine_pos st)
         \<and> (if has_field ''WCO:'' (frame_fields line) then pl_work_offset p \<noteq> None
             else pl_work_offset p = None \<and> work_offset st' = work_offset st)
         \<and> (if has_field ''FS:'' (frame_fields line)
             then pl_feed_rate p = Some (feed_rate st') \<and> pl_spindle_rpm p = Some (spindle_rpm st')
             else pl_feed_rate p = None \<and> pl_spindle_rpm p = None
                  \<and> feed_rate st' = feed_rate st \<and> spindle_rpm st' = spindle_rpm st)
         \<and> spindle_dir st' = spindle_dir st \<and> tool st' = tool st
         \<and> current_line st' = current_line st \<and> total_lines st' = total_lines st
         \<and> job_file st' = job_file st"
proof -
  note pt = assms(1) [unfolded parse_status_def]
  note ing = ingest_status_fields [OF assms(2)]
  have st: "status st' = state_word_of (frame_fields line)"
    using parse_tokens_status [OF pt] ing(1)
    by (simp add: state_word_of_def split: list.splits)
  have mp: "if has_field ''MPos:'' (frame_fields line) then pl_machine_pos p = Some (machine_pos st')
             else pl_machine_pos p = None \<and> machine_pos st' = machine_pos st"
    using parse_tokens_machine_pos [OF pt] ing(2)
    by (auto split: if_splits option.splits)
  have wo: "if has_field ''WCO:'' (frame_fields line) then pl_work_offset p \<noteq> None
             else pl_work_offset p = None \<and> work_offset st' = work_offset st"
    using parse_tokens_work_offset [OF pt] ing(5)
    by (auto split: if_splits)
  have fs: "if has_field ''FS:'' (frame_fields line)
             then pl_feed_rate p = Some (feed_rate st') \<and> pl_spindle_rpm p = Some (spindle_rpm st')
             else pl_feed_rate p = None \<and> pl_spindle_rpm p = None
                  \<and> feed_rate st' = feed_rate st \<and> spindle_rpm st' = spindle_rpm st"
    using parse_tokens_feed [OF pt] ing(3,4)
    by (auto split: if_splits option.splits)
  from st mp wo fs ing(6-10) show ?thesis
    by (intro conjI)
qed

theorem status_frame_update_witness:
  "parse_status ''<Hold|MPos:1,2,3|FS:100,8000>''
     = Inr \<lparr>pl_status = Some Paused, pl_machine_pos = Some [1, 2, 3], pl_work_offset = None,
            pl_feed_rate = Some 100, pl_spindle_rpm = Some 8000\<rparr>
   \<and> ingest_status \<lparr>pl_status = Some Paused, pl_machine_pos = Some [1, 2, 3],
        pl_work_offset = None, pl_feed_rate = Some 100, pl_spindle_rpm = Some 8000\<rparr> init_state
     = (None, init_state\<lparr>status := Paused, machine_pos := [1, 2, 3], feed_rate := 100,
                          spindle_rpm := 8000\<rparr>)
   \<and> status (init_state\<lparr>status := Paused, machine_pos := [1, 2, 3], feed_rate := 100,
                         spindle_rpm := 8000\<rparr>)
     = state_word_of (frame_fields ''<Hold|MPos:1,2,3|FS:100,8000>'')"
proof -
  have p: "parse_status ''<Hold|MPos:1,2,3|FS:100,8000>''
     = Inr \<lparr>pl_status = Some Paused, pl_machine_pos = Some [1, 2, 3], pl_work_offset = None,
            pl_feed_rate = Some 100, pl_spindle_rpm = Some 8000\<rparr>"
    by code_simp
  have i: "ingest_status \<lparr>pl_status = Some Paused, pl_machine_pos = Some [1, 2, 3],
        pl_work_offset = None, pl_feed_rate = Some 100, pl_spindle_rpm = Some 8000\<rparr> init_state
     = (None, init_state\<lparr>status := Paused, machine_pos := [1, 2, 3], feed_rate := 100,
                          spindle_rpm := 8000\<rparr>)"
    by (simp add: ingest_status_def)
  from status_frame_update [OF p i]
  have s: "status (init_state\<lparr>status := Paused, machine_pos := [1, 2, 3], feed_rate := 100,
                               spindle_rpm := 8000\<rparr>)
             = state_word_of (frame_fields ''<Hold|MPos:1,2,3|FS:100,8000>'')"
    by (rule conjunct1)
  from p i s show ?thesis
    by (intro conjI)
qed

end
